theory Spec2Isabelle
  imports Main
begin

section \<open>The PROXY protocol (version 1) connection wrapper of go-proxyproto\<close>

text \<open>
  A shallow embedding of \<^verbatim>\<open>protocol.go\<close>. Go byte slices and strings are
  \<open>string\<close> (lists of 8-bit characters). Every method of \<^verbatim>\<open>*Conn\<close> takes the
  connection state and returns its result together with the new state. The Go standard
  library (\<^verbatim>\<open>net.Conn\<close>, \<^verbatim>\<open>bufio.Reader\<close>, \<^verbatim>\<open>strings.Split\<close>,
  \<^verbatim>\<open>strconv.Atoi\<close>, \<^verbatim>\<open>net.ParseIP\<close>) is modelled in the first subsections,
  following its documented behaviour.
\<close>

subsection \<open>Errors\<close>

text \<open>
  Go \<^verbatim>\<open>error\<close> values; \<open>None\<close> in an \<open>error option\<close> is \<^verbatim>\<open>nil\<close>.
  \<open>Errorf m\<close> is \<^verbatim>\<open>fmt.Errorf\<close> with the formatted message \<open>m\<close>;
  \<open>Wrapf m e\<close> is \<^verbatim>\<open>fmt.Errorf(m + ": %w", e)\<close>. \<open>NetTimeout\<close> is a
  \<^verbatim>\<open>net.Error\<close> whose \<^verbatim>\<open>Timeout()\<close> is true, \<open>NetError\<close> and
  \<open>ErrClosed\<close> are \<^verbatim>\<open>net.Error\<close>s whose \<^verbatim>\<open>Timeout()\<close> is false.
\<close>

datatype error =
    EOF
  | ErrBufferFull
  | ErrClosed
  | NetTimeout
  | NetError string
  | ErrInvalidUpstream
  | Errorf string
  | Wrapf string error

fun isTimeout :: "error \<Rightarrow> bool" where
  "isTimeout NetTimeout = True"
| "isTimeout _ = False"

subsection \<open>Addresses\<close>

text \<open>\<^verbatim>\<open>net.IP\<close> is a byte slice; \<^verbatim>\<open>net.ParseIP\<close> always returns the 16-byte form.\<close>

type_synonym IP = "nat list"

datatype TCPAddr = TCPAddr (IP: IP) (Port: int) (Zone: string)

subsection \<open>\<^verbatim>\<open>strings.Split\<close>, \<^verbatim>\<open>strconv.Atoi\<close>, \<^verbatim>\<open>net.ParseIP\<close>\<close>

text \<open>\<^verbatim>\<open>strings.Split(s, sep)\<close> for a one-byte separator: never an empty result.\<close>

fun split :: "char \<Rightarrow> string \<Rightarrow> string list" where
  "split d [] = [[]]"
| "split d (c # cs) =
     (if c = d then [] # split d cs
      else (case split d cs of [] \<Rightarrow> [[c]] | w # ws \<Rightarrow> (c # w) # ws))"

definition isDigit :: "char \<Rightarrow> bool" where
  "isDigit c = (48 \<le> (of_char c :: nat) \<and> (of_char c :: nat) \<le> 57)"

definition decimal :: "string \<Rightarrow> nat" where
  "decimal s = foldl (\<lambda>a c. 10 * a + ((of_char c :: nat) - 48)) 0 s"

text \<open>
  \<^verbatim>\<open>strconv.Atoi\<close>: an optional sign, then one or more decimal digits, the value in
  the range of \<^verbatim>\<open>int\<close> (64 bits); \<open>None\<close> is a \<^verbatim>\<open>*NumError\<close>.
\<close>

definition Atoi :: "string \<Rightarrow> int option" where
  "Atoi s =
     (let neg = (s \<noteq> [] \<and> hd s = CHR ''-'');
          digits = (if s \<noteq> [] \<and> (hd s = CHR ''-'' \<or> hd s = CHR ''+'') then tl s else s)
      in if digits = [] \<or> \<not> list_all isDigit digits then None
         else let n = (if neg then - int (decimal digits) else int (decimal digits))
              in if n < - (2 ^ 63) \<or> 2 ^ 63 - 1 < n then None else Some n)"

text \<open>
  The dotted-decimal fields of an IPv4 literal: exactly four, each one to three digits
  with no leading zero and a value of at most 255.
\<close>

definition okOctet :: "string \<Rightarrow> bool" where
  "okOctet f =
     (f \<noteq> [] \<and> list_all isDigit f \<and> (length f = 1 \<or> hd f \<noteq> CHR ''0'') \<and> length f \<le> 3
        \<and> decimal f \<le> 255)"

definition parseIPv4Fields :: "string \<Rightarrow> nat list option" where
  "parseIPv4Fields s =
     (let fs = split CHR ''.'' s
      in if length fs = 4 \<and> list_all okOctet fs then Some (map decimal fs) else None)"

definition parseIPv4 :: "string \<Rightarrow> IP option" where
  "parseIPv4 s =
     (case parseIPv4Fields s of
        None \<Rightarrow> None
      | Some v \<Rightarrow> Some (replicate 10 0 @ [255, 255] @ v))"

definition isHex :: "char \<Rightarrow> bool" where
  "isHex c =
     (isDigit c \<or> (97 \<le> (of_char c :: nat) \<and> (of_char c :: nat) \<le> 102)
        \<or> (65 \<le> (of_char c :: nat) \<and> (of_char c :: nat) \<le> 70))"

definition hexDigit :: "char \<Rightarrow> nat" where
  "hexDigit c =
     (if isDigit c then (of_char c :: nat) - 48
      else if 97 \<le> (of_char c :: nat) then (of_char c :: nat) - 87
      else (of_char c :: nat) - 55)"

definition hexValue :: "string \<Rightarrow> nat" where
  "hexValue s = foldl (\<lambda>a c. 16 * a + hexDigit c) 0 s"

text \<open>
  The loop of the IPv6 parser: \<open>ip\<close> holds the bytes parsed so far (the index \<open>i\<close> of
  the Go code is \<open>length ip\<close>), \<open>ell\<close> the position of the \<^verbatim>\<open>::\<close> if one was seen.
  The result is the bytes, the ellipsis and the unparsed rest of the string.
\<close>

function ipv6Groups :: "string \<Rightarrow> nat list \<Rightarrow> nat option \<Rightarrow> (nat list \<times> nat option \<times> string) option" where
  "ipv6Groups s ip ell =
     (if 16 \<le> length ip then Some (ip, ell, s)
      else
        let grp = takeWhile isHex s; rest = dropWhile isHex s in
        if grp = [] \<or> 4 < length grp then None
        else if rest \<noteq> [] \<and> hd rest = CHR ''.'' then
          (if (ell = None \<and> length ip \<noteq> 12) \<or> 16 < length ip + 4 then None
           else (case parseIPv4Fields s of
                   None \<Rightarrow> None
                 | Some v \<Rightarrow> Some (ip @ v, ell, [])))
        else
          let ip' = ip @ [hexValue grp div 256, hexValue grp mod 256] in
          if rest = [] then Some (ip', ell, [])
          else if hd rest \<noteq> CHR '':'' \<or> length rest = 1 then None
          else if hd (tl rest) = CHR '':'' then
            (if ell \<noteq> None then None
             else if tl (tl rest) = [] then Some (ip', Some (length ip'), [])
             else ipv6Groups (tl (tl rest)) ip' (Some (length ip')))
          else ipv6Groups (tl rest) ip' ell)"
  by pat_completeness auto
termination
proof (relation "measure (\<lambda>(s, ip, ell). length s)", goal_cases)
  case 1
  show ?case by simp
next
  case (2 s ip ell grp rest ip')
  have "length (dropWhile isHex s) \<le> length s" by (rule length_dropWhile_le)
  with 2 show ?case by (cases "dropWhile isHex s") (auto split: if_splits)
next
  case (3 s ip ell grp rest ip')
  have "length (dropWhile isHex s) \<le> length s" by (rule length_dropWhile_le)
  with 3 show ?case by (cases "dropWhile isHex s") (auto split: if_splits)
qed

definition parseIPv6 :: "string \<Rightarrow> IP option" where
  "parseIPv6 s0 =
     (if CHR ''%'' \<in> set s0 then None
      else
        let lead = (2 \<le> length s0 \<and> take 2 s0 = ''::'');
            s = (if lead then drop 2 s0 else s0);
            ell0 = (if lead then Some 0 else None)
        in if lead \<and> s = [] then Some (replicate 16 0)
           else (case ipv6Groups s [] ell0 of
                   None \<Rightarrow> None
                 | Some (ip, ell, rest) \<Rightarrow>
                     if rest \<noteq> [] then None
                     else if length ip < 16 then
                       (case ell of
                          None \<Rightarrow> None
                        | Some e \<Rightarrow> Some (take e ip @ replicate (16 - length ip) 0 @ drop e ip))
                     else if ell \<noteq> None then None
                     else Some ip))"

text \<open>
  \<^verbatim>\<open>net.ParseIP\<close>: the first \<^verbatim>\<open>.\<close> or \<^verbatim>\<open>:\<close> of the string decides whether it
  is read as an IPv4 or as an IPv6 literal; a zone (\<^verbatim>\<open>%\<close>) is refused;
  \<open>None\<close> is the \<^verbatim>\<open>nil\<close> result.
\<close>

fun ParseIP_scan :: "string \<Rightarrow> string \<Rightarrow> IP option" where
  "ParseIP_scan s [] = None"
| "ParseIP_scan s (c # cs) =
     (if c = CHR ''.'' then parseIPv4 s
      else if c = CHR '':'' then parseIPv6 s
      else if c = CHR ''%'' then None
      else ParseIP_scan s cs)"

definition ParseIP :: "string \<Rightarrow> IP option" where
  "ParseIP s = ParseIP_scan s s"

subsection \<open>The transport: \<^verbatim>\<open>net.Conn\<close>\<close>

text \<open>
  What the peer and the network will deliver is a list of events, one per successful or
  failed read of the socket: a chunk of bytes, or an error (a deadline that elapsed is
  \<open>Fault NetTimeout\<close>). The end of the list is the end of the stream: every later read
  returns \<^verbatim>\<open>io.EOF\<close>. A read into a buffer of \<open>n\<close> bytes takes at most \<open>n\<close>
  bytes from the first chunk and leaves the rest of it for the next read.
\<close>

datatype event = Data string | Fault error

record net_Conn =
  input :: "event list"
  closed :: bool
  written :: string
  localAddr :: TCPAddr
  remoteAddr :: TCPAddr
  readDeadline :: "nat option"

fun recv :: "nat \<Rightarrow> event list \<Rightarrow> (string \<times> error option) \<times> event list" where
  "recv n [] = (([], Some EOF), [])"
| "recv n (Fault e # es) = (([], Some e), es)"
| "recv n (Data bs # es) =
     (if bs = [] then recv n es
      else ((take n bs, None), (if length bs \<le> n then es else Data (drop n bs) # es)))"

definition conn_Read :: "net_Conn \<Rightarrow> nat \<Rightarrow> (string \<times> error option) \<times> net_Conn" where
  "conn_Read c n =
     (if closed c then (([], Some ErrClosed), c)
      else (case recv n (input c) of (r, es) \<Rightarrow> (r, c\<lparr>input := es\<rparr>)))"

definition conn_Write :: "net_Conn \<Rightarrow> string \<Rightarrow> (nat \<times> error option) \<times> net_Conn" where
  "conn_Write c b =
     (if closed c then ((0, Some ErrClosed), c)
      else ((length b, None), c\<lparr>written := written c @ b\<rparr>))"

definition conn_Close :: "net_Conn \<Rightarrow> error option \<times> net_Conn" where
  "conn_Close c = (if closed c then (Some ErrClosed, c) else (None, c\<lparr>closed := True\<rparr>))"

text \<open>The deadline \<^verbatim>\<open>time.Now().Add(d)\<close> is kept as \<open>Some d\<close>, the zero time as \<open>None\<close>.\<close>

definition conn_SetReadDeadline :: "net_Conn \<Rightarrow> nat option \<Rightarrow> error option \<times> net_Conn" where
  "conn_SetReadDeadline c d =
     (if closed c then (Some ErrClosed, c) else (None, c\<lparr>readDeadline := d\<rparr>))"

subsection \<open>\<^verbatim>\<open>bufio.Reader\<close>\<close>

text \<open>
  \<open>buf\<close> is the buffered, unread part (\<^verbatim>\<open>b.buf[b.r:b.w]\<close>), \<open>rerr\<close> the pending
  error \<^verbatim>\<open>b.err\<close>. The reader reads from the connection of the \<^verbatim>\<open>Conn\<close> that
  holds it, so its operations take and return the connection as well.
\<close>

record bufio_Reader =
  buf :: string
  rerr :: "error option"

definition bufSize :: nat where
  "bufSize = 4096"

definition NewReader :: bufio_Reader where
  "NewReader = \<lparr>buf = [], rerr = None\<rparr>"

text \<open>\<^verbatim>\<open>fill\<close> reads once into the free part of the buffer (which is not empty).\<close>

definition fill :: "bufio_Reader \<Rightarrow> net_Conn \<Rightarrow> bufio_Reader \<times> net_Conn" where
  "fill b c =
     (case conn_Read c (bufSize - length (buf b)) of
        ((d, e), c') \<Rightarrow>
          (b\<lparr>buf := buf b @ d, rerr := (case e of None \<Rightarrow> rerr b | Some x \<Rightarrow> Some x)\<rparr>, c'))"

text \<open>The size of what the connection may still deliver, for the termination of the loops.\<close>

fun evsize :: "event list \<Rightarrow> nat" where
  "evsize [] = 0"
| "evsize (Data bs # es) = Suc (2 * length bs + evsize es)"
| "evsize (Fault e # es) = Suc (evsize es)"

definition pending :: "bufio_Reader \<Rightarrow> net_Conn \<Rightarrow> nat" where
  "pending b c = evsize (input c) + length (buf b) + (if rerr b = None then 1 else 0)"

lemma recv_evsize:
  "0 < n \<Longrightarrow> recv n es = ((d, e), es') \<Longrightarrow>
     (e = None \<longrightarrow> 0 < length d \<and> evsize es' + 2 * length d \<le> evsize es) \<and>
     (e \<noteq> None \<longrightarrow> d = [] \<and> evsize es' \<le> evsize es)"
proof (induction n es rule: recv.induct)
  case (1 n)
  then show ?case by auto
next
  case (2 n e es)
  then show ?case by auto
next
  case (3 n bs es)
  show ?case
  proof (cases "bs = []")
    case True
    with 3 show ?thesis by auto
  next
    case False
    with 3 show ?thesis by (auto split: if_splits)
  qed
qed

lemma fill_pending:
  assumes "length (buf b) < bufSize" and "rerr b = None"
  shows "pending (fst (fill b c)) (snd (fill b c)) < pending b c"
proof (cases "closed c")
  case True
  with assms show ?thesis by (auto simp: fill_def conn_Read_def pending_def)
next
  case False
  obtain d e es' where r: "recv (bufSize - length (buf b)) (input c) = ((d, e), es')"
    by (metis prod.exhaust)
  from assms(1) have "0 < bufSize - length (buf b)" by simp
  from recv_evsize [OF this r] False assms(2) r show ?thesis
    by (cases e; cases d) (auto simp: fill_def conn_Read_def pending_def)
qed

function Peek_fill :: "nat \<Rightarrow> bufio_Reader \<Rightarrow> net_Conn \<Rightarrow> bufio_Reader \<times> net_Conn" where
  "Peek_fill n b c =
     (if length (buf b) < n \<and> length (buf b) < bufSize \<and> rerr b = None
      then (case fill b c of (b', c') \<Rightarrow> Peek_fill n b' c')
      else (b, c))"
  by pat_completeness auto
termination Peek_fill
proof (relation "measure (\<lambda>(n, b, c). pending b c)", goal_cases)
  case 1
  show ?case by simp
next
  case (2 n b c b1 c1)
  then show ?case using fill_pending [of b c] by (simp add: case_prod_beta)
qed

definition Peek :: "bufio_Reader \<Rightarrow> net_Conn \<Rightarrow> nat \<Rightarrow> (string \<times> error option) \<times> bufio_Reader \<times> net_Conn" where
  "Peek b c n =
     (case Peek_fill n b c of
        (b1, c1) \<Rightarrow>
          if bufSize < n then ((buf b1, Some ErrBufferFull), b1, c1)
          else if length (buf b1) < n then
            ((buf b1, Some (case rerr b1 of None \<Rightarrow> ErrBufferFull | Some e \<Rightarrow> e)),
             b1\<lparr>rerr := None\<rparr>, c1)
          else ((take n (buf b1), None), b1, c1))"

text \<open>
  \<^verbatim>\<open>ReadString\<close>: the loop of \<^verbatim>\<open>ReadSlice\<close> inside the loop of
  \<^verbatim>\<open>collectFragments\<close>; \<open>acc\<close> holds the full buffers collected so far.
\<close>

function ReadString_loop :: "char \<Rightarrow> string \<Rightarrow> bufio_Reader \<Rightarrow> net_Conn \<Rightarrow> (string \<times> error option) \<times> bufio_Reader \<times> net_Conn" where
  "ReadString_loop delim acc b c =
     (if delim \<in> set (buf b) then
        ((acc @ takeWhile (\<lambda>x. x \<noteq> delim) (buf b) @ [delim], None),
         b\<lparr>buf := tl (dropWhile (\<lambda>x. x \<noteq> delim) (buf b))\<rparr>, c)
      else if rerr b \<noteq> None then ((acc @ buf b, rerr b), b\<lparr>buf := [], rerr := None\<rparr>, c)
      else if bufSize \<le> length (buf b) then ReadString_loop delim (acc @ buf b) (b\<lparr>buf := []\<rparr>) c
      else (case fill b c of (b', c') \<Rightarrow> ReadString_loop delim acc b' c'))"
  by pat_completeness auto
termination ReadString_loop
proof (relation "measure (\<lambda>(delim, acc, b, c). pending b c)", goal_cases)
  case 1
  show ?case by simp
next
  case (2 delim acc b c)
  then show ?case by (cases "buf b") (simp_all add: pending_def bufSize_def)
next
  case (3 delim acc b c b1 c1)
  then show ?case using fill_pending [of b c] by (simp add: case_prod_beta)
qed

definition ReadString :: "bufio_Reader \<Rightarrow> net_Conn \<Rightarrow> char \<Rightarrow> (string \<times> error option) \<times> bufio_Reader \<times> net_Conn" where
  "ReadString b c delim = ReadString_loop delim [] b c"

text \<open>\<^verbatim>\<open>Read\<close> into a slice of length \<open>n\<close>; the result holds the bytes read.\<close>

definition bufio_Read :: "bufio_Reader \<Rightarrow> net_Conn \<Rightarrow> nat \<Rightarrow> (string \<times> error option) \<times> bufio_Reader \<times> net_Conn" where
  "bufio_Read b c n =
     (if n = 0 then
        (if buf b \<noteq> [] then (([], None), b, c) else (([], rerr b), b\<lparr>rerr := None\<rparr>, c))
      else if buf b = [] then
        (if rerr b \<noteq> None then (([], rerr b), b\<lparr>rerr := None\<rparr>, c)
         else if bufSize \<le> n then
           (case conn_Read c n of ((d, e), c') \<Rightarrow> ((d, e), b, c'))
         else
           (case conn_Read c bufSize of
              ((d, e), c') \<Rightarrow>
                if d = [] then (([], e), b, c')
                else ((take n d, None), b\<lparr>buf := drop n d, rerr := e\<rparr>, c')))
      else ((take n (buf b), None), b\<lparr>buf := drop n (buf b)\<rparr>, c))"

subsection \<open>The wrapped connection\<close>

text \<open>
  The struct \<^verbatim>\<open>Conn\<close>. \<open>once\<close> is the \<^verbatim>\<open>sync.Once\<close>: true when its function
  has run. Two fields are not in the struct: \<open>parses\<close> counts the executions of
  \<^verbatim>\<open>checkPrefix\<close>, and \<open>logged\<close> holds what \<^verbatim>\<open>log.Printf\<close> was given.
\<close>

record Conn =
  bufReader :: bufio_Reader
  conn :: net_Conn
  dstAddr :: "TCPAddr option"
  srcAddr :: "TCPAddr option"
  proxyErr :: "error option"
  useConnAddr :: bool
  once :: bool
  proxyHeaderTimeout :: nat
  unknownOK :: bool
  parses :: nat
  logged :: "error list"

definition prefix :: string where
  "prefix = ''PROXY ''"

definition prefixLen :: nat where
  "prefixLen = length prefix"

definition NewConn :: "net_Conn \<Rightarrow> nat \<Rightarrow> Conn" where
  "NewConn c timeout =
     \<lparr>bufReader = NewReader, conn = c, dstAddr = None, srcAddr = None, proxyErr = None,
      useConnAddr = False, once = False, proxyHeaderTimeout = timeout, unknownOK = False,
      parses = 0, logged = []\<rparr>"

text \<open>
  The listener; the underlying listener is left out, \<^verbatim>\<open>Accept\<close> takes what the
  underlying \<^verbatim>\<open>Accept\<close> returned.
\<close>

record Listener =
  ProxyHeaderTimeout :: nat
  SourceCheck :: "(TCPAddr \<Rightarrow> bool \<times> error option) option"
  UnknownOK :: bool

definition Accept :: "Listener \<Rightarrow> error + net_Conn \<Rightarrow> error + Conn" where
  "Accept l r =
     (case r of
        Inl err \<Rightarrow> Inl err
      | Inr c \<Rightarrow>
          (case (case SourceCheck l of
                   None \<Rightarrow> Inr False
                 | Some chk \<Rightarrow>
                     (case chk (remoteAddr c) of
                        (allowed, Some err) \<Rightarrow> Inl err
                      | (allowed, None) \<Rightarrow> Inr (\<not> allowed))) of
             Inl err \<Rightarrow> Inl err
           | Inr u \<Rightarrow>
               Inr ((NewConn c (ProxyHeaderTimeout l))
                      \<lparr>useConnAddr := u, unknownOK := UnknownOK l\<rparr>)))"

text \<open>The error branches of the header parser: close the connection, keep the error.\<close>

definition reject :: "Conn \<Rightarrow> error \<Rightarrow> error option \<times> Conn" where
  "reject p e = (Some e, p\<lparr>conn := snd (conn_Close (conn p)), proxyErr := Some e\<rparr>)"

text \<open>Lines 247 to 312 of \<^verbatim>\<open>checkPrefix\<close>: the header line, its terminator stripped.\<close>

definition parseHeader :: "Conn \<Rightarrow> string \<Rightarrow> error option \<times> Conn" where
  "parseHeader p header =
     (let parts = split CHR '' '' header in
      if length parts < 2 then reject p (Errorf (''invalid header line: '' @ header))
      else if parts ! 1 = ''UNKNOWN'' then
        (if \<not> unknownOK p \<or> length parts \<noteq> 2
         then reject p (Errorf (''invalid UNKNOWN header line: '' @ header))
         else (None, p\<lparr>useConnAddr := True\<rparr>))
      else if parts ! 1 \<noteq> ''TCP4'' \<and> parts ! 1 \<noteq> ''TCP6''
      then reject p (Errorf (''Unhandled address type: '' @ parts ! 1))
      else if length parts \<noteq> 6
      then reject p (Errorf (''Invalid header line (should have 6 parts): '' @ header))
      else
        (case ParseIP (parts ! 2) of
           None \<Rightarrow> reject p (Errorf (''Invalid source ip: '' @ parts ! 2))
         | Some ip \<Rightarrow>
             (case Atoi (parts ! 4) of
                None \<Rightarrow> reject p (Errorf (''Invalid source port: '' @ parts ! 4))
              | Some port \<Rightarrow>
                  let p1 = p\<lparr>srcAddr := Some (TCPAddr ip port [])\<rparr> in
                  (case ParseIP (parts ! 3) of
                     None \<Rightarrow> reject p1 (Errorf (''Invalid destination ip: '' @ parts ! 3))
                   | Some ip' \<Rightarrow>
                       (case Atoi (parts ! 5) of
                          None \<Rightarrow>
                            reject p1 (Errorf (''Invalid destination port: '' @ parts ! 5))
                        | Some port' \<Rightarrow>
                            (None, p1\<lparr>dstAddr := Some (TCPAddr ip' port' [])\<rparr>))))))"

text \<open>Lines 239 to 248: read the header line and strip its last two bytes.\<close>

definition readHeader :: "Conn \<Rightarrow> error option \<times> Conn" where
  "readHeader p =
     (case ReadString (bufReader p) (conn p) (CHR 0x0A) of
        ((header, err), b', c') \<Rightarrow>
          let p1 = p\<lparr>bufReader := b', conn := c'\<rparr> in
          (case err of
             Some e \<Rightarrow>
               (Some e,
                p1\<lparr>proxyErr := Some (Wrapf ''error reading first proxyheader line'' e),
                   conn := snd (conn_Close (conn p1))\<rparr>)
           | None \<Rightarrow> parseHeader p1 (take (length header - 2) header)))"

text \<open>
  Lines 219 to 237: the loop over the lengths \<open>i\<close> of the prefix. \<open>Some r\<close> is a return
  of \<open>r\<close> from inside the loop, \<open>None\<close> the end of the loop.
\<close>

function matchPrefix :: "nat \<Rightarrow> Conn \<Rightarrow> error option option \<times> Conn" where
  "matchPrefix i p =
     (if i \<le> prefixLen then
        (case Peek (bufReader p) (conn p) i of
           ((inp, err), b', c') \<Rightarrow>
             let p1 = p\<lparr>bufReader := b', conn := c'\<rparr> in
             (case err of
                Some e \<Rightarrow>
                  let p2 = p1\<lparr>proxyErr :=
                                Some (Wrapf ''error while trying to read proxy header'' e)\<rparr>
                  in if isTimeout e then (Some None, p2) else (Some (Some e), p2)
              | None \<Rightarrow>
                  if inp \<noteq> take i prefix
                  then (Some None,
                        p1\<lparr>proxyErr :=
                              Some (Errorf ''connection read did not match proxy header'')\<rparr>)
                  else matchPrefix (Suc i) p1))
      else (None, p))"
  by pat_completeness auto
termination matchPrefix
  by (relation "measure (\<lambda>(i, p). Suc prefixLen - i)") auto

text \<open>
  Lines 213 to 217: the deadline for the header, and the deferred call that clears it
  when \<^verbatim>\<open>checkPrefix\<close> returns (\<open>t\<close> is the timeout read at the start).
\<close>

definition armDeadline :: "Conn \<Rightarrow> Conn" where
  "armDeadline p =
     (if proxyHeaderTimeout p \<noteq> 0
      then p\<lparr>conn := snd (conn_SetReadDeadline (conn p) (Some (proxyHeaderTimeout p)))\<rparr>
      else p)"

definition disarmDeadline :: "nat \<Rightarrow> Conn \<Rightarrow> Conn" where
  "disarmDeadline t p =
     (if t \<noteq> 0 then p\<lparr>conn := snd (conn_SetReadDeadline (conn p) None)\<rparr> else p)"

definition checkPrefix :: "Conn \<Rightarrow> error option \<times> Conn" where
  "checkPrefix p =
     (case (case matchPrefix 1 (armDeadline (p\<lparr>parses := Suc (parses p)\<rparr>)) of
              (Some r, p1) \<Rightarrow> (r, p1)
            | (None, p1) \<Rightarrow> readHeader p1) of
        (err, p2) \<Rightarrow> (err, disarmDeadline (proxyHeaderTimeout p) p2))"

definition checkPrefixOnce :: "Conn \<Rightarrow> Conn" where
  "checkPrefixOnce p =
     (if once p then p
      else (case checkPrefix p of
              (err, p1) \<Rightarrow>
                (case err of
                   None \<Rightarrow> p1
                 | Some e \<Rightarrow>
                     if e \<noteq> EOF
                     then p1\<lparr>logged := logged p1 @ [e], conn := snd (conn_Close (conn p1)),
                             bufReader := NewReader\<rparr>
                     else p1)
                \<lparr>once := True\<rparr>))"

definition Read :: "Conn \<Rightarrow> nat \<Rightarrow> (string \<times> error option) \<times> Conn" where
  "Read p n =
     (case (if once p then (None, p)
            else (case checkPrefix p of (err, p1) \<Rightarrow> (err, p1\<lparr>once := True\<rparr>))) of
        (Some e, p1) \<Rightarrow> (([], Some e), p1)
      | (None, p1) \<Rightarrow>
          (case bufio_Read (bufReader p1) (conn p1) n of
             (r, b', c') \<Rightarrow> (r, p1\<lparr>bufReader := b', conn := c'\<rparr>)))"

definition Write :: "Conn \<Rightarrow> string \<Rightarrow> (nat \<times> error option) \<times> Conn" where
  "Write p b = (case conn_Write (conn p) b of (r, c') \<Rightarrow> (r, p\<lparr>conn := c'\<rparr>))"

definition Close :: "Conn \<Rightarrow> error option \<times> Conn" where
  "Close p = (case conn_Close (conn p) of (r, c') \<Rightarrow> (r, p\<lparr>conn := c'\<rparr>))"

definition LocalAddr :: "Conn \<Rightarrow> TCPAddr \<times> Conn" where
  "LocalAddr p =
     (let p1 = checkPrefixOnce p in
      (case dstAddr p1 of
         Some a \<Rightarrow> if \<not> useConnAddr p1 then a else localAddr (conn p1)
       | None \<Rightarrow> localAddr (conn p1),
       p1))"

definition RemoteAddr :: "Conn \<Rightarrow> TCPAddr \<times> Conn" where
  "RemoteAddr p =
     (let p1 = checkPrefixOnce p in
      (case srcAddr p1 of
         Some a \<Rightarrow> if \<not> useConnAddr p1 then a else remoteAddr (conn p1)
       | None \<Rightarrow> remoteAddr (conn p1),
       p1))"

definition ProxySourceAddr :: "Conn \<Rightarrow> (TCPAddr option \<times> error option) \<times> Conn" where
  "ProxySourceAddr p = (let p1 = checkPrefixOnce p in ((srcAddr p1, proxyErr p1), p1))"

subsection \<open>Streams and sequences of calls\<close>

text \<open>
  The vocabulary of the theorems. Of the events a connection will deliver, \<open>ahead\<close> is
  the bytes that arrive before the first error, \<open>fault\<close> that error (\<^verbatim>\<open>io.EOF\<close>
  at the end of the stream) and \<open>behind\<close> the events after it. \<open>unread\<close> is what the
  wrapped connection has yet to hand out before that error: the bytes its reader has
  buffered, then the bytes ahead.
\<close>

fun ahead :: "event list \<Rightarrow> string" where
  "ahead [] = []"
| "ahead (Data bs # es) = bs @ ahead es"
| "ahead (Fault e # es) = []"

fun fault :: "event list \<Rightarrow> error" where
  "fault [] = EOF"
| "fault (Data bs # es) = fault es"
| "fault (Fault e # es) = e"

fun behind :: "event list \<Rightarrow> event list" where
  "behind [] = []"
| "behind (Data bs # es) = behind es"
| "behind (Fault e # es) = es"

definition unread :: "Conn \<Rightarrow> string" where
  "unread p = buf (bufReader p) @ ahead (input (conn p))"

text \<open>
  \<open>advanced k b c b' c'\<close>: from \<open>(b, c)\<close> to \<open>(b', c')\<close> the reader has handed out the
  next \<open>k\<close> bytes and otherwise only moved bytes from the connection into its buffer.
\<close>

definition advanced :: "nat \<Rightarrow> bufio_Reader \<Rightarrow> net_Conn \<Rightarrow> bufio_Reader \<Rightarrow> net_Conn \<Rightarrow> bool" where
  "advanced k b c b' c' =
     (rerr b' = None \<and> closed c' = closed c \<and> written c' = written c \<and>
      localAddr c' = localAddr c \<and> remoteAddr c' = remoteAddr c \<and>
      readDeadline c' = readDeadline c \<and>
      buf b' @ ahead (input c') = drop k (buf b @ ahead (input c)) \<and>
      fault (input c') = fault (input c) \<and> behind (input c') = behind (input c))"

definition moved :: "nat \<Rightarrow> Conn \<Rightarrow> Conn \<Rightarrow> bool" where
  "moved k p p' =
     (dstAddr p' = dstAddr p \<and> srcAddr p' = srcAddr p \<and> proxyErr p' = proxyErr p \<and>
      useConnAddr p' = useConnAddr p \<and> once p' = once p \<and>
      proxyHeaderTimeout p' = proxyHeaderTimeout p \<and> unknownOK p' = unknownOK p \<and>
      parses p' = parses p \<and> logged p' = logged p \<and>
      advanced k (bufReader p) (conn p) (bufReader p') (conn p'))"

text \<open>The calls a user of the connection makes, and what each returns.\<close>

datatype call = CallRead nat | CallRemoteAddr | CallLocalAddr | CallProxySourceAddr | CallWrite string

datatype reply =
    GotRead string "error option"
  | GotAddr TCPAddr
  | GotSource "TCPAddr option" "error option"
  | GotWrite nat "error option"

fun invoke :: "Conn \<Rightarrow> call \<Rightarrow> reply \<times> Conn" where
  "invoke p (CallRead n) = (case Read p n of ((d, e), p') \<Rightarrow> (GotRead d e, p'))"
| "invoke p CallRemoteAddr = (case RemoteAddr p of (a, p') \<Rightarrow> (GotAddr a, p'))"
| "invoke p CallLocalAddr = (case LocalAddr p of (a, p') \<Rightarrow> (GotAddr a, p'))"
| "invoke p CallProxySourceAddr = (case ProxySourceAddr p of ((a, e), p') \<Rightarrow> (GotSource a e, p'))"
| "invoke p (CallWrite b) = (case Write p b of ((n, e), p') \<Rightarrow> (GotWrite n e, p'))"

fun run :: "Conn \<Rightarrow> call list \<Rightarrow> reply list \<times> Conn" where
  "run p [] = ([], p)"
| "run p (x # xs) =
     (case invoke p x of (r, p1) \<Rightarrow> (case run p1 xs of (rs, p2) \<Rightarrow> (r # rs, p2)))"

text \<open>The bytes a sequence of replies handed out, and the reads that asked for any.\<close>

fun readBytes :: "reply list \<Rightarrow> string" where
  "readBytes [] = []"
| "readBytes (GotRead d e # rs) = d @ readBytes rs"
| "readBytes (r # rs) = readBytes rs"

fun demand :: "call list \<Rightarrow> nat" where
  "demand [] = 0"
| "demand (CallRead n # xs) = (if 0 < n then Suc (demand xs) else demand xs)"
| "demand (x # xs) = demand xs"

text \<open>The calls that start the parse of the header when it has not run yet.\<close>

fun triggers :: "call \<Rightarrow> bool" where
  "triggers (CallWrite b) = False"
| "triggers x = True"

text \<open>The calls that only report what the parse found.\<close>

fun accessor :: "call \<Rightarrow> bool" where
  "accessor CallRemoteAddr = True"
| "accessor CallLocalAddr = True"
| "accessor CallProxySourceAddr = True"
| "accessor x = False"

text \<open>What the parse leaves in the connection for the accessors.\<close>

definition outcome :: "Conn \<Rightarrow> TCPAddr option \<times> TCPAddr option \<times> error option \<times> bool" where
  "outcome p = (srcAddr p, dstAddr p, proxyErr p, useConnAddr p)"

text \<open>
  A connection is \<open>sound\<close> when its reader has no error pending, it is open and its
  stream ends after the bytes ahead; \<open>settled\<close> when moreover the parse has run.
\<close>

definition sound :: "Conn \<Rightarrow> bool" where
  "sound p =
     (rerr (bufReader p) = None \<and> \<not> closed (conn p) \<and> fault (input (conn p)) = EOF \<and>
      behind (input (conn p)) = [])"

definition settled :: "Conn \<Rightarrow> bool" where
  "settled p = (once p \<and> sound p)"

definition sameAddrs :: "net_Conn \<Rightarrow> net_Conn \<Rightarrow> bool" where
  "sameAddrs c c' = (localAddr c' = localAddr c \<and> remoteAddr c' = remoteAddr c)"

text \<open>What no step of the parse changes.\<close>

definition framed :: "Conn \<Rightarrow> Conn \<Rightarrow> bool" where
  "framed p p' =
     (sameAddrs (conn p) (conn p') \<and> once p' = once p \<and> parses p' = parses p \<and>
      unknownOK p' = unknownOK p \<and> proxyHeaderTimeout p' = proxyHeaderTimeout p)"

text \<open>A connection for the examples: \<open>10.0.0.2:5555\<close> connected to \<open>10.0.0.1:443\<close>.\<close>

definition CR :: char where
  "CR = CHR 0x0D"

definition LF :: char where
  "LF = CHR 0x0A"

definition sock :: "event list \<Rightarrow> net_Conn" where
  "sock es =
     \<lparr>input = es, closed = False, written = [],
      localAddr = TCPAddr (replicate 10 0 @ [255, 255, 10, 0, 0, 1]) 443 [],
      remoteAddr = TCPAddr (replicate 10 0 @ [255, 255, 10, 0, 0, 2]) 5555 [],
      readDeadline = None\<rparr>"

section \<open>Properties\<close>

subsection \<open>Write\<close>

text \<open>
  C9. \<^verbatim>\<open>Write\<close> never starts the parse of the header and leaves everything the
  parse works on as it is, in every state of the connection: the latch, the count of
  parses, the addresses, the stored error, the address policy, the buffered reader and
  the input of the underlying connection are unchanged. Its result is the result of the
  underlying connection's write, and the underlying connection is left as that write
  leaves it.
\<close>

theorem Write_leaves_parse_state:
  "once (snd (Write p b)) = once p \<and> parses (snd (Write p b)) = parses p \<and>
   srcAddr (snd (Write p b)) = srcAddr p \<and> dstAddr (snd (Write p b)) = dstAddr p \<and>
   proxyErr (snd (Write p b)) = proxyErr p \<and> useConnAddr (snd (Write p b)) = useConnAddr p \<and>
   bufReader (snd (Write p b)) = bufReader p \<and>
   input (conn (snd (Write p b))) = input (conn p) \<and>
   fst (Write p b) = fst (conn_Write (conn p) b) \<and>
   conn (snd (Write p b)) = snd (conn_Write (conn p) b)"
  by (simp add: Write_def conn_Write_def split: prod.splits)

end
